theory Spec2Isabelle
  imports Main
begin

section \<open>k8s-pvc-tagger: process start-up, health endpoint and leader election (main.go)\<close>

text \<open>
  The embedding follows \<^verbatim>\<open>src/main.go\<close>. Go strings are byte strings and become
  \<^typ>\<open>string\<close>; a Go \<^verbatim>\<open>error\<close> is represented by its message, \<^verbatim>\<open>nil\<close> by
  \<^const>\<open>None\<close>. A call that ends the process (\<^verbatim>\<open>log.Fatalln\<close>, \<^verbatim>\<open>os.Exit\<close>) is a
  value of the type of outcomes.
\<close>

subsection \<open>What the process receives from outside main.go\<close>

type_synonym error = string

text \<open>
  The command line: for each flag registered in lines 104-114, the value given by the
  operator, or \<^const>\<open>None\<close> when the flag is absent. (A command line that
  \<^verbatim>\<open>flag.Parse\<close> rejects never reaches line 117 and is not represented.)
\<close>

record cmdline =
  kubeconfig_flag :: "string option"
  context_flag :: "string option"
  region_flag :: "string option"
  lease_id_flag :: "string option"
  lease_lock_name_flag :: "string option"
  lease_lock_namespace_flag :: "string option"
  default_tags_flag :: "string option"
  annotation_prefix_flag :: "string option"
  watch_namespace_flag :: "string option"
  status_port_flag :: "string option"
  metrics_port_flag :: "string option"

text \<open>
  Everything \<^verbatim>\<open>main\<close> calls that is not defined in main.go is a parameter: the
  environment variables, the UUID drawn at line 107, the standard library's JSON and
  regular expression functions, and the helpers \<^verbatim>\<open>getCurrentNamespace\<close>,
  \<^verbatim>\<open>getMetadataRegion\<close>, \<^verbatim>\<open>createAWSSession\<close>, \<^verbatim>\<open>buildClient\<close> and the constant
  \<^verbatim>\<open>regexpAWSRegion\<close> of the package's other files. \<^verbatim>\<open>os.Getenv\<close> yields the empty
  string for an unset variable. \<^verbatim>\<open>createAWSSession\<close> returns a pointer, \<^const>\<open>None\<close>
  standing for \<^verbatim>\<open>nil\<close>.
\<close>

record ('s, 'c) world =
  os_Getenv :: "string \<Rightarrow> string"
  uuid_New_String :: string
  json_Unmarshal :: "string \<Rightarrow> error + (string \<rightharpoonup> string)"
  regexp_Match :: "string \<Rightarrow> string \<Rightarrow> bool \<times> error option"
  regexpAWSRegion :: string
  getCurrentNamespace :: string
  getMetadataRegion :: "string \<times> error option"
  createAWSSession :: "string \<Rightarrow> 's option"
  buildClient :: "string \<Rightarrow> string \<Rightarrow> error + 'c"

subsection \<open>What main hands to the leader election library\<close>

text \<open>\<^verbatim>\<open>resourcelock.LeaseLock\<close> as built in lines 212-221.\<close>

record 'c LeaseLock =
  LeaseMeta_Name :: string
  LeaseMeta_Namespace :: string
  Client :: 'c
  LockConfig_Identity :: string

text \<open>
  \<^verbatim>\<open>leaderelection.LeaderElectionConfig\<close> as built in lines 224-252. A
  \<^verbatim>\<open>time.Duration\<close> is a number of nanoseconds. The three callbacks are closures over
  \<^verbatim>\<open>leaseID\<close> and the package variable \<^verbatim>\<open>watchNamespace\<close>; they are the functions
  \<open>OnStartedLeading\<close>, \<open>OnStoppedLeading\<close> and \<open>OnNewLeader\<close> below, applied to the
  values captured here.
\<close>

record 'c LeaderElectionConfig =
  Lock :: "'c LeaseLock"
  ReleaseOnCancel :: bool
  LeaseDuration :: int
  RenewDeadline :: int
  RetryPeriod :: int

text \<open>
  The process at the call of \<^verbatim>\<open>leaderelection.RunOrDie\<close> (line 224): the election
  configuration, the local and package variables the callbacks and the reconciliation
  read, and the two HTTP servers started in lines 163-180.
\<close>

record ('s, 'c) process =
  p_config :: "'c LeaderElectionConfig"
  p_leaseID :: string
  p_watchNamespace :: string
  p_annotationPrefix :: string
  p_defaultTags :: "string \<rightharpoonup> string"
  p_awsRegion :: string
  p_awsSession :: 's
  p_k8sClient :: 'c
  p_statusAddr :: string
  p_metricsAddr :: string

text \<open>
  How \<^verbatim>\<open>main\<close> ends: \<^verbatim>\<open>log.Fatalln\<close> (which logs its arguments and exits with status
  1), a direct \<^verbatim>\<open>os.Exit\<close>, or the call of \<^verbatim>\<open>RunOrDie\<close>.
\<close>

datatype ('s, 'c) outcome =
  Fatalln (message: "string list")
| os_Exit (status: int)
| RunOrDie (proc: "('s, 'c) process")

fun exitStatus :: "('s, 'c) outcome \<Rightarrow> int option" where
  "exitStatus (Fatalln msg) = Some 1"
| "exitStatus (os_Exit n) = Some n"
| "exitStatus (RunOrDie p) = None"

subsection \<open>main, lines 93-254\<close>

text \<open>\<^verbatim>\<open>flag.StringVar\<close> followed by \<^verbatim>\<open>flag.Parse\<close>: the given value, else the default.\<close>

definition flag_StringVar :: "string option \<Rightarrow> string \<Rightarrow> string" where
  "flag_StringVar given dflt = (case given of None \<Rightarrow> dflt | Some v \<Rightarrow> v)"

definition time_Second :: int where
  "time_Second = 1000000000"

definition main :: "('s, 'c) world \<Rightarrow> cmdline \<Rightarrow> ('s, 'c) outcome" where
  "main w a =
    (let kubeconfig = flag_StringVar (kubeconfig_flag a) '''';
         kubeContext = flag_StringVar (context_flag a) '''';
         region = flag_StringVar (region_flag a) (os_Getenv w ''AWS_REGION'');
         leaseID = flag_StringVar (lease_id_flag a) (uuid_New_String w);
         leaseLockName = flag_StringVar (lease_lock_name_flag a) ''k8s-aws-ebs-tagger'';
         leaseLockNamespace =
           flag_StringVar (lease_lock_namespace_flag a) (os_Getenv w ''NAMESPACE'');
         defaultTagsString = flag_StringVar (default_tags_flag a) '''';
         annotationPrefix = flag_StringVar (annotation_prefix_flag a) ''aws-ebs-tagger'';
         watchNamespace =
           flag_StringVar (watch_namespace_flag a) (os_Getenv w ''WATCH_NAMESPACE'');
         statusPort = flag_StringVar (status_port_flag a) ''8000'';
         metricsPort = flag_StringVar (metrics_port_flag a) ''8001''
     in
     if leaseLockName = '''' then
       Fatalln [''unable to get lease lock resource name (missing lease-lock-name flag).'']
     else
     let leaseLockNamespace' =
           (if leaseLockNamespace = '''' then getCurrentNamespace w else leaseLockNamespace)
     in
     if leaseLockNamespace = '''' \<and> leaseLockNamespace' = '''' then
       Fatalln
         [''unable to get lease lock resource namespace (missing lease-lock-namespace flag).'']
     else
     (case (if defaultTagsString \<noteq> '''' then json_Unmarshal w defaultTagsString
            else Inr Map.empty) of
        Inl err \<Rightarrow> Fatalln [''default-tags are not valid json key/value pairs:'', err]
      | Inr defaultTags \<Rightarrow>
     (let region' = (if length region = 0 then fst (getMetadataRegion w) else region) in
     (case regexp_Match w (regexpAWSRegion w) region' of
        (ok, Some err) \<Rightarrow> Fatalln [''Failed to parse AWS_REGION:'', err]
      | (ok, None) \<Rightarrow>
     (if \<not> ok then Fatalln [''Given AWS_REGION does not match AWS Region format.'']
      else
     (case createAWSSession w region' of
        None \<Rightarrow> os_Exit 1
      | Some awsSession \<Rightarrow>
     (case buildClient w kubeconfig kubeContext of
        Inl err \<Rightarrow> Fatalln [''Unable to create kubernetes client'', err]
      | Inr k8sClient \<Rightarrow>
        RunOrDie
          \<lparr>p_config =
             \<lparr>Lock =
                \<lparr>LeaseMeta_Name = leaseLockName,
                 LeaseMeta_Namespace = leaseLockNamespace',
                 Client = k8sClient,
                 LockConfig_Identity = leaseID\<rparr>,
              ReleaseOnCancel = True,
              LeaseDuration = 60 * time_Second,
              RenewDeadline = 15 * time_Second,
              RetryPeriod = 5 * time_Second\<rparr>,
           p_leaseID = leaseID,
           p_watchNamespace = watchNamespace,
           p_annotationPrefix = annotationPrefix,
           p_defaultTags = defaultTags,
           p_awsRegion = region',
           p_awsSession = awsSession,
           p_k8sClient = k8sClient,
           p_statusAddr = ''0.0.0.0:'' @ statusPort,
           p_metricsAddr = ''0.0.0.0:'' @ metricsPort\<rparr>)))))))"

text \<open>
  Lines 136-252 of \<^verbatim>\<open>main\<close> once more, as a function of the two values settled in
  lines 117-134 (the lease namespace and the default tags). It serves the proofs only:
  \<open>main_staged\<close> below shows that \<^verbatim>\<open>main\<close> is lines 117-134 followed by it.
\<close>

definition main_from_line_136 ::
  "('s, 'c) world \<Rightarrow> cmdline \<Rightarrow> string \<Rightarrow> (string \<rightharpoonup> string) \<Rightarrow> ('s, 'c) outcome" where
  "main_from_line_136 w a leaseLockNamespace defaultTags =
    (let kubeconfig = flag_StringVar (kubeconfig_flag a) '''';
         kubeContext = flag_StringVar (context_flag a) '''';
         region = flag_StringVar (region_flag a) (os_Getenv w ''AWS_REGION'');
         leaseID = flag_StringVar (lease_id_flag a) (uuid_New_String w);
         leaseLockName = flag_StringVar (lease_lock_name_flag a) ''k8s-aws-ebs-tagger'';
         annotationPrefix = flag_StringVar (annotation_prefix_flag a) ''aws-ebs-tagger'';
         watchNamespace =
           flag_StringVar (watch_namespace_flag a) (os_Getenv w ''WATCH_NAMESPACE'');
         statusPort = flag_StringVar (status_port_flag a) ''8000'';
         metricsPort = flag_StringVar (metrics_port_flag a) ''8001'';
         region' = (if length region = 0 then fst (getMetadataRegion w) else region)
     in
     (case regexp_Match w (regexpAWSRegion w) region' of
        (ok, Some err) \<Rightarrow> Fatalln [''Failed to parse AWS_REGION:'', err]
      | (ok, None) \<Rightarrow>
     (if \<not> ok then Fatalln [''Given AWS_REGION does not match AWS Region format.'']
      else
     (case createAWSSession w region' of
        None \<Rightarrow> os_Exit 1
      | Some awsSession \<Rightarrow>
     (case buildClient w kubeconfig kubeContext of
        Inl err \<Rightarrow> Fatalln [''Unable to create kubernetes client'', err]
      | Inr k8sClient \<Rightarrow>
        RunOrDie
          \<lparr>p_config =
             \<lparr>Lock =
                \<lparr>LeaseMeta_Name = leaseLockName,
                 LeaseMeta_Namespace = leaseLockNamespace,
                 Client = k8sClient,
                 LockConfig_Identity = leaseID\<rparr>,
              ReleaseOnCancel = True,
              LeaseDuration = 60 * time_Second,
              RenewDeadline = 15 * time_Second,
              RetryPeriod = 5 * time_Second\<rparr>,
           p_leaseID = leaseID,
           p_watchNamespace = watchNamespace,
           p_annotationPrefix = annotationPrefix,
           p_defaultTags = defaultTags,
           p_awsRegion = region',
           p_awsSession = awsSession,
           p_k8sClient = k8sClient,
           p_statusAddr = ''0.0.0.0:'' @ statusPort,
           p_metricsAddr = ''0.0.0.0:'' @ metricsPort\<rparr>)))))"

text \<open>
  A world and a command line used for the concrete instances below: no flag given,
  \<^verbatim>\<open>AWS_REGION=eu-west-1\<close> and \<^verbatim>\<open>NAMESPACE=kube-system\<close> in the environment, and library
  results for the strings that occur (the region pattern accepts \<^verbatim>\<open>eu-west-1\<close> and
  \<^verbatim>\<open>us-east-1\<close>; the one JSON text that occurs is decoded).
\<close>

definition noFlags :: cmdline where
  "noFlags =
    \<lparr>kubeconfig_flag = None, context_flag = None, region_flag = None,
     lease_id_flag = None, lease_lock_name_flag = None, lease_lock_namespace_flag = None,
     default_tags_flag = None, annotation_prefix_flag = None, watch_namespace_flag = None,
     status_port_flag = None, metrics_port_flag = None\<rparr>"

definition exampleWorld :: "(unit, unit) world" where
  "exampleWorld =
    \<lparr>os_Getenv = (\<lambda>v. if v = ''AWS_REGION'' then ''eu-west-1''
                       else if v = ''NAMESPACE'' then ''kube-system'' else ''''),
     uuid_New_String = ''6ba7b810-9dad-41d1-80b4-00c04fd430c8'',
     json_Unmarshal = (\<lambda>s. if s = ''{}'' then Inr Map.empty
                            else Inl ''invalid character''),
     regexp_Match = (\<lambda>pat s. (s = ''eu-west-1'' \<or> s = ''us-east-1'', None)),
     regexpAWSRegion = ''^[a-z]{2}-[a-z]+-[0-9]$'',
     getCurrentNamespace = ''default'',
     getMetadataRegion = (''us-east-1'', None),
     createAWSSession = (\<lambda>r. Some ()),
     buildClient = (\<lambda>k c. Inr ())\<rparr>"

text \<open>
  A second world with no environment variable set, so that the region and the lease
  namespace come from their fallbacks; and a command line that gives every flag.
\<close>

definition bareWorld :: "(unit, unit) world" where
  "bareWorld = exampleWorld\<lparr>os_Getenv := (\<lambda>v. '''')\<rparr>"

definition allFlags :: cmdline where
  "allFlags =
    \<lparr>kubeconfig_flag = Some ''/etc/kube/config'', context_flag = Some ''prod'',
     region_flag = Some ''us-east-1'', lease_id_flag = Some ''replica-a'',
     lease_lock_name_flag = Some ''pvc-tagger'',
     lease_lock_namespace_flag = Some ''tagger'', default_tags_flag = Some ''{}'',
     annotation_prefix_flag = Some ''tags'', watch_namespace_flag = Some ''ns1,ns2'',
     status_port_flag = Some ''9000'', metrics_port_flag = Some ''9001''\<rparr>"

definition exampleProcess :: "(unit, unit) process" where
  "exampleProcess =
    \<lparr>p_config =
       \<lparr>Lock =
          \<lparr>LeaseMeta_Name = ''k8s-aws-ebs-tagger'',
           LeaseMeta_Namespace = ''kube-system'',
           Client = (),
           LockConfig_Identity = ''6ba7b810-9dad-41d1-80b4-00c04fd430c8''\<rparr>,
        ReleaseOnCancel = True,
        LeaseDuration = 60000000000,
        RenewDeadline = 15000000000,
        RetryPeriod = 5000000000\<rparr>,
     p_leaseID = ''6ba7b810-9dad-41d1-80b4-00c04fd430c8'',
     p_watchNamespace = '''',
     p_annotationPrefix = ''aws-ebs-tagger'',
     p_defaultTags = Map.empty,
     p_awsRegion = ''eu-west-1'',
     p_awsSession = (),
     p_k8sClient = (),
     p_statusAddr = ''0.0.0.0:8000'',
     p_metricsAddr = ''0.0.0.0:8001''\<rparr>"

text \<open>
  A world and a command line for the default tags: the operator passes a JSON object
  with one entry, whose key has 144 characters and contains an asterisk, and the JSON
  library decodes it.
\<close>

definition longKey :: string where
  "longKey = ''kubernetes.io/*'' @ replicate 129 CHR ''k''"

definition tagsJSON :: string where
  \<open>tagsJSON = ''{"'' @ longKey @ ''":"x"}''\<close>

definition tagsWorld :: "(unit, unit) world" where
  "tagsWorld =
    exampleWorld
      \<lparr>json_Unmarshal :=
         (\<lambda>s. if s = tagsJSON then Inr [longKey \<mapsto> ''x''] else Inl ''invalid character'')\<rparr>"

definition tagsFlags :: cmdline where
  "tagsFlags = noFlags\<lparr>default_tags_flag := Some tagsJSON\<rparr>"

subsection \<open>statusHandler, lines 256-269\<close>

text \<open>
  Of the request the handler reads the method only. The \<^verbatim>\<open>http.ResponseWriter\<close> is a
  state: the status code sent (none before the header is written), the bytes written,
  and the error every \<^verbatim>\<open>Write\<close> on this connection returns, if any. As in net/http,
  the first \<^verbatim>\<open>WriteHeader\<close> fixes the status code, and a \<^verbatim>\<open>Write\<close> before any
  \<^verbatim>\<open>WriteHeader\<close> sends the header with \<^verbatim>\<open>http.StatusOK\<close> first.
\<close>

record Request =
  Method :: string

record ResponseWriter =
  statusCode :: "nat option"
  written :: string
  writeError :: "error option"

definition newResponseWriter :: "error option \<Rightarrow> ResponseWriter" where
  "newResponseWriter e = \<lparr>statusCode = None, written = '''', writeError = e\<rparr>"

definition http_StatusOK :: nat where
  "http_StatusOK = 200"

definition http_StatusNotImplemented :: nat where
  "http_StatusNotImplemented = 501"

definition WriteHeader :: "ResponseWriter \<Rightarrow> nat \<Rightarrow> ResponseWriter" where
  "WriteHeader w c = (case statusCode w of None \<Rightarrow> w\<lparr>statusCode := Some c\<rparr> | Some c' \<Rightarrow> w)"

definition Write :: "ResponseWriter \<Rightarrow> string \<Rightarrow> ResponseWriter \<times> error option" where
  "Write w bytes =
    (let w' = WriteHeader w http_StatusOK in
     case writeError w' of
       None \<Rightarrow> (w'\<lparr>written := written w' @ bytes\<rparr>, None)
     | Some e \<Rightarrow> (w', Some e))"

text \<open>The log of the process: the level and the arguments of each logging call.\<close>

datatype level = DebugLevel | InfoLevel | ErrorLevel

type_synonym log_entry = "level \<times> string list"

definition statusHandler :: "ResponseWriter \<Rightarrow> Request \<Rightarrow> ResponseWriter \<times> log_entry list" where
  "statusHandler w r =
    (if Method r \<noteq> ''GET'' then
       (let w1 = WriteHeader w http_StatusNotImplemented;
            (w2, err) = Write w1 ''method is not implemented''
        in (w2, case err of
                  Some e \<Rightarrow> [(ErrorLevel, [''Cannot write status message:'', e])]
                | None \<Rightarrow> []))
     else
       (let (w1, err) = Write w ''OK''
        in (w1, case err of
                  Some e \<Rightarrow> [(ErrorLevel, [''Cannot write status message:'', e])]
                | None \<Rightarrow> [])))"

subsection \<open>run and runWatchNamespaceTask, lines 182-192 and 271-280\<close>

text \<open>
  \<^verbatim>\<open>strings.Split\<close> for a separator of one byte, the only use in main.go: the
  substrings between the separators, in order; one more than there are separators.
\<close>

fun splitAcc :: "char \<Rightarrow> string \<Rightarrow> string \<Rightarrow> string list" where
  "splitAcc sep cur [] = [cur]"
| "splitAcc sep cur (c # cs) =
     (if c = sep then cur # splitAcc sep [] cs else splitAcc sep (cur @ [c]) cs)"

definition strings_Split :: "string \<Rightarrow> char \<Rightarrow> string list" where
  "strings_Split s sep = splitAcc sep [] s"

text \<open>\<^verbatim>\<open>strings.Join\<close>, to say what the split is.\<close>

fun strings_Join :: "string list \<Rightarrow> string \<Rightarrow> string" where
  "strings_Join [] sep = ''''"
| "strings_Join [e] sep = e"
| "strings_Join (e # es) sep = e @ sep @ strings_Join es sep"

text \<open>
  A goroutine running \<^verbatim>\<open>runWatchNamespaceTask(ctx, namespace)\<close>. It makes the channel
  \<^verbatim>\<open>ch\<close>, starts \<^verbatim>\<open>watchForPersistentVolumeClaims(ch, namespace)\<close> in a goroutine of
  its own (line 276) and blocks at \<^verbatim>\<open>ctx.Done()\<close> (line 278); once the context is done
  it closes \<^verbatim>\<open>ch\<close> (line 279) and returns. Until \<^verbatim>\<open>ch\<close> is closed, the watch of the
  namespace runs.
\<close>

datatype task = Task (namespace: string) (chClosed: bool)

definition runWatchNamespaceTask :: "string \<Rightarrow> task" where
  "runWatchNamespaceTask ns = Task ns False"

definition close_ch :: "task \<Rightarrow> task" where
  "close_ch t = Task (namespace t) True"

text \<open>
  \<^verbatim>\<open>run\<close>: the tasks it starts, in the order of the loop of lines 189-191.
\<close>

definition run :: "string \<Rightarrow> task list" where
  "run watchNamespace =
    (let namespaces =
           (if watchNamespace \<noteq> '''' then strings_Split watchNamespace CHR '',''
            else [] @ [''''])
     in map runWatchNamespaceTask namespaces)"

subsection \<open>The callbacks, lines 236-251\<close>

definition OnStartedLeading :: "string \<Rightarrow> task list" where
  "OnStartedLeading watchNamespace = run watchNamespace"

text \<open>\<^verbatim>\<open>OnStoppedLeading\<close>: what it logs, and the status it passes to \<^verbatim>\<open>os.Exit\<close>.\<close>

definition OnStoppedLeading :: "string \<Rightarrow> log_entry list \<times> int" where
  "OnStoppedLeading leaseID = ([(InfoLevel, [''leader lost:'', leaseID])], 0)"

definition OnNewLeader :: "string \<Rightarrow> string \<Rightarrow> log_entry list" where
  "OnNewLeader leaseID identity =
    (if identity = leaseID then [] else [(InfoLevel, [''new leader elected:'', identity])])"

subsection \<open>The process during the leader election\<close>

text \<open>
  After \<^verbatim>\<open>main\<close> has called \<^verbatim>\<open>RunOrDie\<close>, the process advances by the events below.
  The state holds what main.go defines: whether the context of line 196 is cancelled,
  the tasks started by \<^verbatim>\<open>run\<close>, the log written by the signal goroutine and the
  callbacks, and the exit status once \<^verbatim>\<open>os.Exit\<close> has been called; and the phase of
  the election library, which is outside the repository. The two HTTP servers (lines
  163-180) and the watches behind the tasks are not part of the state: no code of
  main.go reads them after their start.

  Of the library the model assumes its documented contract only. It acquires the lease
  while the context is live and then calls \<^verbatim>\<open>OnStartedLeading\<close>; it stops leading when
  a renewal fails, or, \<^verbatim>\<open>ReleaseOnCancel\<close> being set (line 232), when it finds its
  context cancelled, and it then gives the lease up; having stopped, it calls
  \<^verbatim>\<open>OnStoppedLeading\<close>, also when the context was cancelled before the lease was
  acquired. The context it passes to \<^verbatim>\<open>OnStartedLeading\<close> is done when the context of
  line 196 is cancelled or when it has stopped leading. The library receives the
  context, the lock and the callbacks and nothing else: it has no handle on the
  goroutines that \<^verbatim>\<open>run\<close> starts, so no step of it waits for them.
  \<^verbatim>\<open>OnStartedLeading\<close> runs in a goroutine of the library; the model runs it at the
  acquisition.
\<close>

datatype phase = Acquiring | Leading | Lost

record pstate =
  ctxCancelled :: bool
  phase :: phase
  tasks :: "task list"
  logged :: "log_entry list"
  exited :: "int option"

datatype event =
  Signal
| LeaseAcquired
| RenewFailed
| LeaseReleased
| CtxDone nat
| StoppedLeading
| NewLeader string

definition atRunOrDie :: pstate where
  "atRunOrDie =
    \<lparr>ctxCancelled = False, phase = Acquiring, tasks = [], logged = [], exited = None\<rparr>"

text \<open>
  One event. \<^const>\<open>Signal\<close> is the goroutine of lines 204-208 receiving
  \<^verbatim>\<open>os.Interrupt\<close> or \<^verbatim>\<open>SIGTERM\<close>; it receives once. \<^term>\<open>CtxDone i\<close> is the
  \<open>i\<close>-th task leaving line 278 and closing its channel. The other events are the
  library's. An event that cannot occur in a state yields \<^const>\<open>None\<close>; after
  \<^verbatim>\<open>os.Exit\<close> nothing occurs.
\<close>

fun step :: "('s, 'c) process \<Rightarrow> event \<Rightarrow> pstate \<Rightarrow> pstate option" where
  "step p Signal s =
    (if exited s \<noteq> None then None
     else if ctxCancelled s then Some s
     else Some (s\<lparr>ctxCancelled := True,
                  logged := logged s @ [(InfoLevel, [''Received termination, signaling shutdown''])]\<rparr>))"
| "step p LeaseAcquired s =
    (if exited s = None \<and> phase s = Acquiring \<and> \<not> ctxCancelled s then
       Some (s\<lparr>phase := Leading, tasks := OnStartedLeading (p_watchNamespace p)\<rparr>)
     else None)"
| "step p RenewFailed s =
    (if exited s = None \<and> phase s = Leading then Some (s\<lparr>phase := Lost\<rparr>) else None)"
| "step p LeaseReleased s =
    (if exited s = None \<and> phase s = Leading \<and> ctxCancelled s \<and> ReleaseOnCancel (p_config p)
     then Some (s\<lparr>phase := Lost\<rparr>)
     else None)"
| "step p (CtxDone i) s =
    (if exited s = None \<and> i < length (tasks s) \<and> (ctxCancelled s \<or> phase s = Lost) then
       (if chClosed (tasks s ! i) then None
        else Some (s\<lparr>tasks := (tasks s)[i := close_ch (tasks s ! i)]\<rparr>))
     else None)"
| "step p StoppedLeading s =
    (if exited s = None \<and> (phase s = Lost \<or> (phase s = Acquiring \<and> ctxCancelled s)) then
       (case OnStoppedLeading (p_leaseID p) of
          (entries, code) \<Rightarrow> Some (s\<lparr>logged := logged s @ entries, exited := Some code\<rparr>))
     else None)"
| "step p (NewLeader identity) s =
    (if exited s = None then Some (s\<lparr>logged := logged s @ OnNewLeader (p_leaseID p) identity\<rparr>)
     else None)"

fun exec :: "('s, 'c) process \<Rightarrow> event list \<Rightarrow> pstate \<Rightarrow> pstate option" where
  "exec p [] s = Some s"
| "exec p (e # es) s = (case step p e s of None \<Rightarrow> None | Some s' \<Rightarrow> exec p es s')"

subsection \<open>Reaching the leader election\<close>

lemma main_RunOrDie_D:
  assumes "main w a = RunOrDie p"
  shows "LeaseMeta_Name (Lock (p_config p))
           = flag_StringVar (lease_lock_name_flag a) ''k8s-aws-ebs-tagger''"
    and "LeaseMeta_Name (Lock (p_config p)) \<noteq> ''''"
    and "LockConfig_Identity (Lock (p_config p))
           = flag_StringVar (lease_id_flag a) (uuid_New_String w)"
    and "p_leaseID p = flag_StringVar (lease_id_flag a) (uuid_New_String w)"
    and "LeaseDuration (p_config p) = 60 * time_Second"
    and "RenewDeadline (p_config p) = 15 * time_Second"
    and "RetryPeriod (p_config p) = 5 * time_Second"
    and "ReleaseOnCancel (p_config p)"
  using assms
  by (auto simp: main_def Let_def split: if_splits sum.splits prod.splits option.splits)

lemma main_RunOrDie_namespace:
  assumes "main w a = RunOrDie p"
    and "ns = flag_StringVar (lease_lock_namespace_flag a) (os_Getenv w ''NAMESPACE'')"
  shows "LeaseMeta_Namespace (Lock (p_config p))
           = (if ns = '''' then getCurrentNamespace w else ns)"
    and "LeaseMeta_Namespace (Lock (p_config p)) \<noteq> ''''"
  using assms
  by (auto simp: main_def Let_def split: if_splits sum.splits prod.splits option.splits)


lemma main_RunOrDie_defaultTags:
  assumes "main w a = RunOrDie p"
    and "ds = flag_StringVar (default_tags_flag a) ''''"
  shows "ds = '''' \<Longrightarrow> p_defaultTags p = Map.empty"
    and "ds \<noteq> '''' \<Longrightarrow> json_Unmarshal w ds = Inr (p_defaultTags p)"
  using assms
  by (auto simp: main_def Let_def split: if_splits sum.splits prod.splits option.splits)

lemma main_exampleWorld_noFlags: "main exampleWorld noFlags = RunOrDie exampleProcess"
  by (simp add: main_def exampleWorld_def noFlags_def flag_StringVar_def Let_def
      exampleProcess_def time_Second_def)

subsection \<open>The lease lock's name\<close>

text \<open>
  C10. The lease-lock resource name defaults to the fixed non-empty value
  \<^verbatim>\<open>k8s-aws-ebs-tagger\<close> (line 108); an operator who passes an empty
  \<^verbatim>\<open>lease-lock-name\<close> makes the process end in \<^verbatim>\<open>log.Fatalln\<close> with status 1 (lines
  117-119); so whenever the leader election is started, the lock's name is not empty.
\<close>

theorem lease_lock_name_default_and_never_empty:
  "(lease_lock_name_flag a = None \<and> main w a = RunOrDie p
      \<longrightarrow> LeaseMeta_Name (Lock (p_config p)) = ''k8s-aws-ebs-tagger'')
   \<and> (lease_lock_name_flag a = Some ''''
      \<longrightarrow> main w a =
            Fatalln [''unable to get lease lock resource name (missing lease-lock-name flag).'']
          \<and> exitStatus (main w a) = Some 1)
   \<and> (main w a = RunOrDie p \<longrightarrow> LeaseMeta_Name (Lock (p_config p)) \<noteq> '''')"
proof (intro conjI impI)
  assume "lease_lock_name_flag a = None \<and> main w a = RunOrDie p"
  then show "LeaseMeta_Name (Lock (p_config p)) = ''k8s-aws-ebs-tagger''"
    using main_RunOrDie_D(1) [of w a p] by (simp add: flag_StringVar_def)
next
  assume e: "lease_lock_name_flag a = Some ''''"
  then show f: "main w a =
      Fatalln [''unable to get lease lock resource name (missing lease-lock-name flag).'']"
    by (simp add: main_def flag_StringVar_def Let_def)
  show "exitStatus (main w a) = Some 1"
    by (simp add: f)
next
  assume "main w a = RunOrDie p"
  then show "LeaseMeta_Name (Lock (p_config p)) \<noteq> ''''"
    by (rule main_RunOrDie_D(2))
qed

theorem lease_lock_name_default_and_never_empty_witness:
  "lease_lock_name_flag noFlags = None
   \<and> main exampleWorld noFlags = RunOrDie exampleProcess
   \<and> LeaseMeta_Name (Lock (p_config exampleProcess)) = ''k8s-aws-ebs-tagger''
   \<and> LeaseMeta_Name (Lock (p_config exampleProcess)) \<noteq> ''''
   \<and> lease_lock_name_flag (noFlags\<lparr>lease_lock_name_flag := Some ''''\<rparr>) = Some ''''
   \<and> main exampleWorld (noFlags\<lparr>lease_lock_name_flag := Some ''''\<rparr>) =
       Fatalln [''unable to get lease lock resource name (missing lease-lock-name flag).'']
   \<and> exitStatus (main exampleWorld (noFlags\<lparr>lease_lock_name_flag := Some ''''\<rparr>)) = Some 1"
  using lease_lock_name_default_and_never_empty [of noFlags exampleWorld exampleProcess]
    lease_lock_name_default_and_never_empty
      [of "noFlags\<lparr>lease_lock_name_flag := Some ''''\<rparr>" exampleWorld exampleProcess]
    main_exampleWorld_noFlags
  by (simp add: noFlags_def)

subsection \<open>The lease lock's namespace\<close>

lemma main_no_namespace:
  assumes "flag_StringVar (lease_lock_namespace_flag a) (os_Getenv w ''NAMESPACE'') = ''''"
    and "getCurrentNamespace w = ''''"
  shows "main w a =
      (if flag_StringVar (lease_lock_name_flag a) ''k8s-aws-ebs-tagger'' = '''' then
         Fatalln [''unable to get lease lock resource name (missing lease-lock-name flag).'']
       else
         Fatalln
           [''unable to get lease lock resource namespace (missing lease-lock-namespace flag).''])"
  using assms by (simp add: main_def Let_def)

text \<open>
  C7. When the lease-lock namespace is not configured (neither the flag nor the
  \<^verbatim>\<open>NAMESPACE\<close> variable gives a non-empty value), the lock uses the namespace that
  \<^verbatim>\<open>getCurrentNamespace\<close> returns (lines 120-121); when that is empty too, the process
  ends in \<^verbatim>\<open>log.Fatalln\<close>, status 1 (lines 122-124). A configured namespace is used
  as it is.
\<close>

theorem lease_lock_namespace_fallback:
  assumes "ns = flag_StringVar (lease_lock_namespace_flag a) (os_Getenv w ''NAMESPACE'')"
  shows "(ns = '''' \<and> main w a = RunOrDie p
            \<longrightarrow> LeaseMeta_Namespace (Lock (p_config p)) = getCurrentNamespace w)
       \<and> (ns = '''' \<and> getCurrentNamespace w = ''''
            \<longrightarrow> is_Fatalln (main w a) \<and> exitStatus (main w a) = Some 1)
       \<and> (ns \<noteq> '''' \<and> main w a = RunOrDie p
            \<longrightarrow> LeaseMeta_Namespace (Lock (p_config p)) = ns)"
proof (intro conjI impI)
  assume "ns = '''' \<and> main w a = RunOrDie p"
  then show "LeaseMeta_Namespace (Lock (p_config p)) = getCurrentNamespace w"
    using main_RunOrDie_namespace(1) [of w a p ns] assms by simp
next
  assume h: "ns = '''' \<and> getCurrentNamespace w = ''''"
  then have m: "main w a =
      (if flag_StringVar (lease_lock_name_flag a) ''k8s-aws-ebs-tagger'' = '''' then
         Fatalln [''unable to get lease lock resource name (missing lease-lock-name flag).'']
       else
         Fatalln
           [''unable to get lease lock resource namespace (missing lease-lock-namespace flag).''])"
    using main_no_namespace [of a w] assms by simp
  show "is_Fatalln (main w a)"
    by (simp add: m)
  show "exitStatus (main w a) = Some 1"
    by (simp add: m)
next
  assume "ns \<noteq> '''' \<and> main w a = RunOrDie p"
  then show "LeaseMeta_Namespace (Lock (p_config p)) = ns"
    using main_RunOrDie_namespace(1) [of w a p ns] assms by simp
qed

lemma main_bareWorld_noFlags:
  "main bareWorld noFlags = RunOrDie
     (exampleProcess
        \<lparr>p_config :=
           (p_config exampleProcess)
             \<lparr>Lock := (Lock (p_config exampleProcess))\<lparr>LeaseMeta_Namespace := ''default''\<rparr>\<rparr>,
         p_awsRegion := ''us-east-1''\<rparr>)"
  by (simp add: main_def bareWorld_def exampleWorld_def noFlags_def flag_StringVar_def Let_def
      exampleProcess_def time_Second_def)

theorem lease_lock_namespace_fallback_witness:
  "flag_StringVar (lease_lock_namespace_flag noFlags) (os_Getenv bareWorld ''NAMESPACE'') = ''''
   \<and> is_RunOrDie (main bareWorld noFlags)
   \<and> getCurrentNamespace bareWorld = ''default''
   \<and> LeaseMeta_Namespace (Lock (p_config (proc (main bareWorld noFlags)))) = ''default''
   \<and> getCurrentNamespace (bareWorld\<lparr>getCurrentNamespace := ''''\<rparr>) = ''''
   \<and> is_Fatalln (main (bareWorld\<lparr>getCurrentNamespace := ''''\<rparr>) noFlags)
   \<and> exitStatus (main (bareWorld\<lparr>getCurrentNamespace := ''''\<rparr>) noFlags) = Some 1
   \<and> flag_StringVar (lease_lock_namespace_flag noFlags) (os_Getenv exampleWorld ''NAMESPACE'')
       = ''kube-system''
   \<and> main exampleWorld noFlags = RunOrDie exampleProcess
   \<and> LeaseMeta_Namespace (Lock (p_config exampleProcess)) = ''kube-system''"
proof -
  have e1: "flag_StringVar (lease_lock_namespace_flag noFlags) (os_Getenv bareWorld ''NAMESPACE'')
      = ''''"
    by (simp add: flag_StringVar_def noFlags_def bareWorld_def)
  have e2: "flag_StringVar (lease_lock_namespace_flag noFlags)
      (os_Getenv (bareWorld\<lparr>getCurrentNamespace := ''''\<rparr>) ''NAMESPACE'') = ''''"
    by (simp add: flag_StringVar_def noFlags_def bareWorld_def)
  have e3: "flag_StringVar (lease_lock_namespace_flag noFlags) (os_Getenv exampleWorld ''NAMESPACE'')
      = ''kube-system''"
    by (simp add: flag_StringVar_def noFlags_def exampleWorld_def)
  have g: "getCurrentNamespace bareWorld = ''default''"
    by (simp add: bareWorld_def exampleWorld_def)
  note t1 = lease_lock_namespace_fallback
    [of "''''" noFlags bareWorld "proc (main bareWorld noFlags)"]
  note t2 = lease_lock_namespace_fallback
    [of "''''" noFlags "bareWorld\<lparr>getCurrentNamespace := ''''\<rparr>" exampleProcess]
  note t3 = lease_lock_namespace_fallback
    [of "''kube-system''" noFlags exampleWorld exampleProcess]
  show ?thesis
    using t1 t2 t3 e1 e2 e3 g main_bareWorld_noFlags main_exampleWorld_noFlags
    by simp
qed

subsection \<open>The holder identity\<close>

text \<open>
  C9, as the claim states it, fails: the holder identity is the value of the
  \<^verbatim>\<open>lease-id\<close> flag (line 107), and the random UUID is only that flag's default. With
  \<^verbatim>\<open>-lease-id replica-a\<close> the lock's identity is \<^verbatim>\<open>replica-a\<close>, not the UUID drawn at
  start.
\<close>

theorem holder_identity_random_counterexample:
  "lease_id_flag (noFlags\<lparr>lease_id_flag := Some ''replica-a''\<rparr>) = Some ''replica-a''
   \<and> is_RunOrDie (main exampleWorld (noFlags\<lparr>lease_id_flag := Some ''replica-a''\<rparr>))
   \<and> LockConfig_Identity (Lock (p_config (proc
         (main exampleWorld (noFlags\<lparr>lease_id_flag := Some ''replica-a''\<rparr>))))) = ''replica-a''
   \<and> LockConfig_Identity (Lock (p_config (proc
         (main exampleWorld (noFlags\<lparr>lease_id_flag := Some ''replica-a''\<rparr>)))))
       \<noteq> uuid_New_String exampleWorld"
  by (simp add: main_def exampleWorld_def noFlags_def flag_StringVar_def Let_def)

text \<open>
  C9, amended. The holder identity of the lease lock is the value of the \<^verbatim>\<open>lease-id\<close>
  flag: the UUID drawn once at process start when the flag is absent, the operator's
  string when it is given. It is fixed when \<^verbatim>\<open>main\<close> builds the lock (lines 212-221),
  and it is the \<^verbatim>\<open>leaseID\<close> that the callbacks compare with and log.
\<close>

theorem holder_identity_is_lease_id_flag:
  assumes "main w a = RunOrDie p"
  shows "(lease_id_flag a = None
            \<longrightarrow> LockConfig_Identity (Lock (p_config p)) = uuid_New_String w)
       \<and> (lease_id_flag a = Some v \<longrightarrow> LockConfig_Identity (Lock (p_config p)) = v)
       \<and> p_leaseID p = LockConfig_Identity (Lock (p_config p))"
  using main_RunOrDie_D(3,4) [OF assms]
  by (simp add: flag_StringVar_def)

theorem holder_identity_is_lease_id_flag_witness:
  "main exampleWorld noFlags = RunOrDie exampleProcess
   \<and> lease_id_flag noFlags = None
   \<and> LockConfig_Identity (Lock (p_config exampleProcess)) = uuid_New_String exampleWorld
   \<and> p_leaseID exampleProcess = LockConfig_Identity (Lock (p_config exampleProcess))
   \<and> lease_id_flag allFlags = Some ''replica-a''
   \<and> is_RunOrDie (main bareWorld allFlags)
   \<and> LockConfig_Identity (Lock (p_config (proc (main bareWorld allFlags)))) = ''replica-a''"
proof -
  have i: "is_RunOrDie (main bareWorld allFlags)"
    by (simp add: main_def bareWorld_def exampleWorld_def allFlags_def flag_StringVar_def
        Let_def)
  then have r: "main bareWorld allFlags = RunOrDie (proc (main bareWorld allFlags))"
    by simp
  have n: "lease_id_flag noFlags = None"
    by (simp add: noFlags_def)
  have s: "lease_id_flag allFlags = Some ''replica-a''"
    by (simp add: allFlags_def)
  show ?thesis
    using holder_identity_is_lease_id_flag [OF main_exampleWorld_noFlags, of "''replica-a''"]
      holder_identity_is_lease_id_flag [OF r, of "''replica-a''"]
      main_exampleWorld_noFlags i n s
    by simp
qed

subsection \<open>The three durations of the lease\<close>

text \<open>
  C4, as the claim states it, fails: no flag and no environment variable reaches the
  three durations. A process started with every flag given and one started with none
  both run the election with 60 s, 15 s and 5 s (in nanoseconds below).
\<close>

theorem lease_durations_from_configuration_counterexample:
  "is_RunOrDie (main exampleWorld noFlags)
   \<and> LeaseDuration (p_config (proc (main exampleWorld noFlags))) = 60000000000
   \<and> RenewDeadline (p_config (proc (main exampleWorld noFlags))) = 15000000000
   \<and> RetryPeriod (p_config (proc (main exampleWorld noFlags))) = 5000000000
   \<and> is_RunOrDie (main bareWorld allFlags)
   \<and> LeaseDuration (p_config (proc (main bareWorld allFlags))) = 60000000000
   \<and> RenewDeadline (p_config (proc (main bareWorld allFlags))) = 15000000000
   \<and> RetryPeriod (p_config (proc (main bareWorld allFlags))) = 5000000000"
  by (simp add: main_def bareWorld_def exampleWorld_def allFlags_def noFlags_def
      flag_StringVar_def Let_def time_Second_def)

text \<open>
  C4, amended. The lease duration, the renew deadline and the retry period are constants
  of \<^verbatim>\<open>main\<close> (lines 233-235): 60, 15 and 5 seconds, whatever the command line and
  the environment are.
\<close>

theorem lease_durations_are_constants:
  assumes "main w a = RunOrDie p"
  shows "LeaseDuration (p_config p) = 60 * time_Second
       \<and> RenewDeadline (p_config p) = 15 * time_Second
       \<and> RetryPeriod (p_config p) = 5 * time_Second
       \<and> time_Second = 1000000000"
  using main_RunOrDie_D(5,6,7) [OF assms]
  by (simp add: time_Second_def)

theorem lease_durations_are_constants_witness:
  "main exampleWorld noFlags = RunOrDie exampleProcess
   \<and> LeaseDuration (p_config exampleProcess) = 60000000000
   \<and> RenewDeadline (p_config exampleProcess) = 15000000000
   \<and> RetryPeriod (p_config exampleProcess) = 5000000000"
  using lease_durations_are_constants [OF main_exampleWorld_noFlags] main_exampleWorld_noFlags
  by (simp add: time_Second_def)

subsection \<open>The region\<close>



lemma is_Fatalln_exitStatus: "is_Fatalln out \<Longrightarrow> exitStatus out = Some 1"
  by (cases out) auto





subsection \<open>The default tags\<close>

lemma main_os_Exit_defaultTags:
  assumes "main w a = os_Exit n"
    and "ds = flag_StringVar (default_tags_flag a) ''''"
    and "ds \<noteq> ''''"
  shows "\<exists>m. json_Unmarshal w ds = Inr m"
  using assms
  by (auto simp: main_def Let_def split: if_splits sum.splits prod.splits option.splits)

lemma main_json_error:
  assumes "ds = flag_StringVar (default_tags_flag a) ''''"
    and "ds \<noteq> ''''"
    and "json_Unmarshal w ds = Inl err"
  shows "is_Fatalln (main w a)"
proof (cases "main w a")
  case (Fatalln msg)
  then show ?thesis by simp
next
  case (os_Exit n)
  then show ?thesis
    using main_os_Exit_defaultTags [OF os_Exit assms(1,2)] assms(3) by simp
next
  case (RunOrDie p)
  then show ?thesis
    using main_RunOrDie_defaultTags(2) [OF RunOrDie assms(1,2)] assms(3) by simp
qed

lemma main_staged:
  "main w a =
    (let leaseLockName = flag_StringVar (lease_lock_name_flag a) ''k8s-aws-ebs-tagger'';
         leaseLockNamespace =
           flag_StringVar (lease_lock_namespace_flag a) (os_Getenv w ''NAMESPACE'');
         defaultTagsString = flag_StringVar (default_tags_flag a) ''''
     in
     if leaseLockName = '''' then
       Fatalln [''unable to get lease lock resource name (missing lease-lock-name flag).'']
     else if leaseLockNamespace = '''' \<and> getCurrentNamespace w = '''' then
       Fatalln
         [''unable to get lease lock resource namespace (missing lease-lock-namespace flag).'']
     else
     (case (if defaultTagsString \<noteq> '''' then json_Unmarshal w defaultTagsString
            else Inr Map.empty) of
        Inl err \<Rightarrow> Fatalln [''default-tags are not valid json key/value pairs:'', err]
      | Inr defaultTags \<Rightarrow>
          main_from_line_136 w a
            (if leaseLockNamespace = '''' then getCurrentNamespace w else leaseLockNamespace)
            defaultTags))"
  by (simp add: main_def main_from_line_136_def Let_def split: sum.splits)

lemma main_from_line_136_json [simp]:
  "main_from_line_136 (w\<lparr>json_Unmarshal := f\<rparr>) a ns m = main_from_line_136 w a ns m"
  by (simp add: main_from_line_136_def Let_def
      cong: prod.case_cong option.case_cong sum.case_cong if_cong)

lemma main_from_line_136_tags:
  "main_from_line_136 w a ns m' =
    (case main_from_line_136 w a ns m of
       RunOrDie p \<Rightarrow> RunOrDie (p\<lparr>p_defaultTags := m'\<rparr>)
     | out \<Rightarrow> out)"
  by (simp add: main_from_line_136_def Let_def split: prod.splits option.splits sum.splits)

lemma main_other_tags:
  assumes "ds = flag_StringVar (default_tags_flag a) ''''"
    and "ds \<noteq> ''''"
    and "json_Unmarshal w ds = Inr m"
  shows "main (w\<lparr>json_Unmarshal := (\<lambda>s. Inr m')\<rparr>) a =
      (case main w a of RunOrDie p \<Rightarrow> RunOrDie (p\<lparr>p_defaultTags := m'\<rparr>) | out \<Rightarrow> out)"
  using assms main_from_line_136_tags [of w a _ m' m]
  by (simp add: main_staged Let_def)

text \<open>
  C6, as the claim states it, fails: \<^verbatim>\<open>main\<close> decodes the default tags (line 129) and
  checks nothing else about them. With a default-tags object whose one key has 144
  characters, more than the provider accepts for a tag key (AWS: 128), and an asterisk,
  which is outside the provider's character set, the process reaches the leader
  election and keeps the entry as decoded.
\<close>

theorem default_tags_validated_at_startup_counterexample:
  "flag_StringVar (default_tags_flag tagsFlags) '''' = tagsJSON
   \<and> tagsJSON \<noteq> ''''
   \<and> json_Unmarshal tagsWorld tagsJSON = Inr [longKey \<mapsto> ''x'']
   \<and> length longKey = 144
   \<and> CHR ''*'' \<in> set longKey
   \<and> is_RunOrDie (main tagsWorld tagsFlags)
   \<and> p_defaultTags (proc (main tagsWorld tagsFlags)) longKey = Some ''x''"
  by (simp add: main_def tagsWorld_def tagsFlags_def exampleWorld_def noFlags_def
      flag_StringVar_def Let_def tagsJSON_def longKey_def)

text \<open>
  C6, amended. A non-empty default-tags string is decoded as a JSON object of strings
  (line 129). When the decoding fails, the process ends in \<^verbatim>\<open>log.Fatalln\<close>, status 1
  (lines 130-132). When it succeeds, the decoded map becomes the default tags as it is:
  \<^verbatim>\<open>main\<close> neither validates nor normalises its keys and values, and had any other map
  been decoded, the process would have ended the same way, with that map as its default
  tags.
\<close>

theorem default_tags_decoded_not_validated:
  assumes "ds = flag_StringVar (default_tags_flag a) ''''"
    and "ds \<noteq> ''''"
  shows "(json_Unmarshal w ds = Inl err
            \<longrightarrow> is_Fatalln (main w a) \<and> exitStatus (main w a) = Some 1)
       \<and> (json_Unmarshal w ds = Inr m \<and> main w a = RunOrDie p \<longrightarrow> p_defaultTags p = m)
       \<and> (json_Unmarshal w ds = Inr m
            \<longrightarrow> main (w\<lparr>json_Unmarshal := (\<lambda>s. Inr m')\<rparr>) a =
                (case main w a of
                   RunOrDie p \<Rightarrow> RunOrDie (p\<lparr>p_defaultTags := m'\<rparr>)
                 | out \<Rightarrow> out))"
proof (intro conjI impI)
  assume e: "json_Unmarshal w ds = Inl err"
  show f: "is_Fatalln (main w a)"
    using main_json_error [OF assms e] .
  show "exitStatus (main w a) = Some 1"
    using f by (rule is_Fatalln_exitStatus)
next
  assume "json_Unmarshal w ds = Inr m \<and> main w a = RunOrDie p"
  then show "p_defaultTags p = m"
    using main_RunOrDie_defaultTags(2) [of w a p ds] assms by simp
next
  assume "json_Unmarshal w ds = Inr m"
  then show "main (w\<lparr>json_Unmarshal := (\<lambda>s. Inr m')\<rparr>) a =
      (case main w a of RunOrDie p \<Rightarrow> RunOrDie (p\<lparr>p_defaultTags := m'\<rparr>) | out \<Rightarrow> out)"
    by (rule main_other_tags [OF assms])
qed

text \<open>
  The instances: the string \<^verbatim>\<open>not json\<close>, which the library rejects; the string
  \<^verbatim>\<open>{}\<close>, decoded to the empty map; and the same start with the one-entry map
  \<^verbatim>\<open>team: infra\<close> decoded instead.
\<close>

theorem default_tags_decoded_not_validated_witness:
  "flag_StringVar (default_tags_flag (noFlags\<lparr>default_tags_flag := Some ''not json''\<rparr>)) ''''
     = ''not json''
   \<and> json_Unmarshal exampleWorld ''not json'' = Inl ''invalid character''
   \<and> is_Fatalln (main exampleWorld (noFlags\<lparr>default_tags_flag := Some ''not json''\<rparr>))
   \<and> exitStatus (main exampleWorld (noFlags\<lparr>default_tags_flag := Some ''not json''\<rparr>)) = Some 1
   \<and> flag_StringVar (default_tags_flag (noFlags\<lparr>default_tags_flag := Some ''{}''\<rparr>)) '''' = ''{}''
   \<and> json_Unmarshal exampleWorld ''{}'' = Inr Map.empty
   \<and> main exampleWorld (noFlags\<lparr>default_tags_flag := Some ''{}''\<rparr>) = RunOrDie exampleProcess
   \<and> p_defaultTags exampleProcess = Map.empty
   \<and> main (exampleWorld\<lparr>json_Unmarshal := (\<lambda>s. Inr [''team'' \<mapsto> ''infra''])\<rparr>)
         (noFlags\<lparr>default_tags_flag := Some ''{}''\<rparr>)
       = RunOrDie (exampleProcess\<lparr>p_defaultTags := [''team'' \<mapsto> ''infra'']\<rparr>)"
proof -
  have d1: "''not json'' =
      flag_StringVar (default_tags_flag (noFlags\<lparr>default_tags_flag := Some ''not json''\<rparr>)) ''''"
    by (simp add: flag_StringVar_def)
  have d2: "''{}'' =
      flag_StringVar (default_tags_flag (noFlags\<lparr>default_tags_flag := Some ''{}''\<rparr>)) ''''"
    by (simp add: flag_StringVar_def)
  have n1: "''not json'' \<noteq> ''''" and n2: "''{}'' \<noteq> ''''"
    by simp_all
  have j1: "json_Unmarshal exampleWorld ''not json'' = Inl ''invalid character''"
    by (simp add: exampleWorld_def)
  have j2: "json_Unmarshal exampleWorld ''{}'' = Inr Map.empty"
    by (simp add: exampleWorld_def)
  have r: "main exampleWorld (noFlags\<lparr>default_tags_flag := Some ''{}''\<rparr>) = RunOrDie exampleProcess"
    by (simp add: main_def exampleWorld_def noFlags_def flag_StringVar_def Let_def
        exampleProcess_def time_Second_def)
  note t1 = default_tags_decoded_not_validated
    [OF d1 n1, of exampleWorld "''invalid character''" Map.empty exampleProcess Map.empty]
  note t2 = default_tags_decoded_not_validated
    [OF d2 n2, of exampleWorld "''invalid character''" Map.empty exampleProcess
      "[''team'' \<mapsto> ''infra'']"]
  show ?thesis
    using t1 t2 j1 j2 r d1 [symmetric] d2 [symmetric]
    by simp
qed

subsection \<open>The health endpoint\<close>

text \<open>
  C8. \<^verbatim>\<open>statusHandler\<close> answers a request whose method is \<^verbatim>\<open>GET\<close> with status 200
  and the body \<^verbatim>\<open>OK\<close>, and a request with any other method with status 501 (not
  implemented) and the body \<^verbatim>\<open>method is not implemented\<close>; the status is sent also when
  writing the body fails. The handler is a function of the response writer and the
  request: it reads the method and nothing else, no state of the leader election.
\<close>

theorem statusHandler_get_ok_else_not_implemented:
  "statusCode (fst (statusHandler (newResponseWriter e) r))
     = Some (if Method r = ''GET'' then http_StatusOK else http_StatusNotImplemented)
   \<and> written (fst (statusHandler (newResponseWriter None) r))
     = (if Method r = ''GET'' then ''OK'' else ''method is not implemented'')
   \<and> snd (statusHandler (newResponseWriter None) r) = []
   \<and> http_StatusOK = 200
   \<and> http_StatusNotImplemented = 501"
  by (cases e)
    (simp_all add: statusHandler_def newResponseWriter_def Write_def WriteHeader_def
      http_StatusOK_def http_StatusNotImplemented_def Let_def)

subsection \<open>The dispatcher tasks\<close>

lemma splitAcc_not_Nil: "splitAcc sep cur s \<noteq> []"
  by (induction s arbitrary: cur) auto

lemma splitAcc_length: "length (splitAcc sep cur s) = Suc (count_list s sep)"
  by (induction s arbitrary: cur) auto

lemma strings_Join_Cons: "es \<noteq> [] \<Longrightarrow> strings_Join (e # es) sep = e @ sep @ strings_Join es sep"
  by (cases es) auto

lemma splitAcc_Join: "strings_Join (splitAcc sep cur s) [sep] = cur @ s"
  by (induction s arbitrary: cur) (auto simp: strings_Join_Cons splitAcc_not_Nil)

lemma splitAcc_no_sep: "sep \<notin> set cur \<Longrightarrow> \<forall>e \<in> set (splitAcc sep cur s). sep \<notin> set e"
proof (induction s arbitrary: cur)
  case Nil
  then show ?case by simp
next
  case (Cons c cs)
  show ?case
  proof (cases "c = sep")
    case True
    then show ?thesis
      using Cons.IH [of "[]"] Cons.prems by simp
  next
    case False
    then show ?thesis
      using Cons.IH [of "cur @ [c]"] Cons.prems by simp
  qed
qed

lemma namespace_runWatchNamespaceTask: "map namespace (map runWatchNamespaceTask nss) = nss"
  by (induction nss) (auto simp: runWatchNamespaceTask_def)

text \<open>
  C3. With an empty watch-namespace configuration \<^verbatim>\<open>run\<close> starts exactly one task, for
  the namespace \<^verbatim>\<open>""\<close> (all namespaces). With a non-empty one it starts one task for
  each entry of the string split at its commas, in order: one more task than the string
  has commas, for namespaces without a comma that, joined by commas, give the string
  back. Each task starts with its channel open.
\<close>

theorem run_starts_one_task_per_namespace:
  "run '''' = [Task '''' False]
   \<and> (watchNamespace \<noteq> '''' \<longrightarrow>
        run watchNamespace = map (\<lambda>ns. Task ns False) (strings_Split watchNamespace CHR '','')
      \<and> length (run watchNamespace) = Suc (count_list watchNamespace CHR '','')
      \<and> strings_Join (map namespace (run watchNamespace)) '','' = watchNamespace
      \<and> (\<forall>t \<in> set (run watchNamespace). CHR '','' \<notin> set (namespace t)))"
proof (intro conjI impI)
  show "run '''' = [Task '''' False]"
    by (simp add: run_def runWatchNamespaceTask_def)
next
  assume n: "watchNamespace \<noteq> ''''"
  then have r: "run watchNamespace = map runWatchNamespaceTask (splitAcc CHR '','' [] watchNamespace)"
    by (simp add: run_def strings_Split_def)
  have f: "runWatchNamespaceTask = (\<lambda>ns. Task ns False)"
    by (rule ext) (simp add: runWatchNamespaceTask_def)
  show "run watchNamespace = map (\<lambda>ns. Task ns False) (strings_Split watchNamespace CHR '','')"
    using r f by (simp add: strings_Split_def)
  show "length (run watchNamespace) = Suc (count_list watchNamespace CHR '','')"
    using r by (simp add: splitAcc_length)
  have m: "map namespace (run watchNamespace) = splitAcc CHR '','' [] watchNamespace"
    by (simp only: r namespace_runWatchNamespaceTask)
  show "strings_Join (map namespace (run watchNamespace)) '','' = watchNamespace"
    using splitAcc_Join [of "CHR '',''" "[]" watchNamespace]
    by (simp only: m append_Nil)
  show "\<forall>t \<in> set (run watchNamespace). CHR '','' \<notin> set (namespace t)"
  proof
    fix t
    assume "t \<in> set (run watchNamespace)"
    then have "namespace t \<in> set (map namespace (run watchNamespace))"
      by simp
    then have "namespace t \<in> set (splitAcc CHR '','' [] watchNamespace)"
      by (simp only: m)
    then show "CHR '','' \<notin> set (namespace t)"
      using splitAcc_no_sep [of "CHR '',''" "[]" watchNamespace] by simp
  qed
qed

theorem run_starts_one_task_per_namespace_witness:
  "''ns1,ns2'' \<noteq> ''''
   \<and> run '''' = [Task '''' False]
   \<and> run ''ns1,ns2'' = [Task ''ns1'' False, Task ''ns2'' False]
   \<and> strings_Split ''ns1,ns2'' CHR '','' = [''ns1'', ''ns2'']
   \<and> length (run ''ns1,ns2'') = 2
   \<and> strings_Join (map namespace (run ''ns1,ns2'')) '','' = ''ns1,ns2''
   \<and> list_all (\<lambda>t. CHR '','' \<notin> set (namespace t)) (run ''ns1,ns2'')"
proof -
  have s: "strings_Split ''ns1,ns2'' CHR '','' = [''ns1'', ''ns2'']"
    by (simp add: strings_Split_def)
  show ?thesis
    using run_starts_one_task_per_namespace [of "''ns1,ns2''"] s
    by (simp add: list_all_iff)
qed

subsection \<open>Losing leadership\<close>

lemma step_exit_status:
  "step p e s = Some s' \<Longrightarrow> exited s' = None \<or> exited s' = Some 0"
  by (cases e) (auto simp: OnStoppedLeading_def split: if_splits)

lemma exec_exit_status:
  "exec p es s = Some s' \<Longrightarrow> exited s = None \<or> exited s = Some 0
    \<Longrightarrow> exited s' = None \<or> exited s' = Some 0"
proof (induction es arbitrary: s)
  case Nil
  then show ?case by simp
next
  case (Cons e es)
  from Cons.prems(1) obtain s1 where s1: "step p e s = Some s1" and r: "exec p es s1 = Some s'"
    by (auto split: option.splits)
  show ?case
    using Cons.IH [OF r step_exit_status [OF s1]] .
qed

lemma step_logged_info:
  "step p e s = Some s' \<Longrightarrow> \<forall>entry \<in> set (logged s). fst entry = InfoLevel
    \<Longrightarrow> \<forall>entry \<in> set (logged s'). fst entry = InfoLevel"
  by (cases e) (auto simp: OnStoppedLeading_def OnNewLeader_def split: if_splits)

lemma exec_logged_info:
  "exec p es s = Some s' \<Longrightarrow> \<forall>entry \<in> set (logged s). fst entry = InfoLevel
    \<Longrightarrow> \<forall>entry \<in> set (logged s'). fst entry = InfoLevel"
proof (induction es arbitrary: s)
  case Nil
  then show ?case by simp
next
  case (Cons e es)
  from Cons.prems(1) obtain s1 where s1: "step p e s = Some s1" and r: "exec p es s1 = Some s'"
    by (auto split: option.splits)
  show ?case
    using Cons.IH [OF r step_logged_info [OF s1 Cons.prems(2)]] .
qed

text \<open>
  C2. In every execution from the call of \<^verbatim>\<open>RunOrDie\<close>: once leadership is lost
  (a renewal failed, or the lease was released after a cancellation) and the process
  still runs, the library's call of \<^verbatim>\<open>OnStoppedLeading\<close> logs \<^verbatim>\<open>leader lost:\<close> with the
  lease id at level info and ends the process with status 0 (lines 240-243); no
  execution ends with another status, and the signal goroutine and the callbacks log
  nothing above level info.
\<close>

theorem leadership_loss_exits_with_status_zero:
  assumes "exec p es atRunOrDie = Some s"
  shows "(exited s = None \<or> exited s = Some 0)
       \<and> (phase s = Lost \<and> exited s = None \<longrightarrow>
            map_option (\<lambda>s'. (exited s', logged s')) (step p StoppedLeading s)
              = Some (Some 0, logged s @ [(InfoLevel, [''leader lost:'', p_leaseID p])]))
       \<and> (\<forall>entry \<in> set (logged s). fst entry = InfoLevel)"
proof (intro conjI impI)
  show "exited s = None \<or> exited s = Some 0"
    using exec_exit_status [OF assms] by (simp add: atRunOrDie_def)
next
  assume "phase s = Lost \<and> exited s = None"
  then show "map_option (\<lambda>s'. (exited s', logged s')) (step p StoppedLeading s)
      = Some (Some 0, logged s @ [(InfoLevel, [''leader lost:'', p_leaseID p])])"
    by (simp add: OnStoppedLeading_def)
next
  show "\<forall>entry \<in> set (logged s). fst entry = InfoLevel"
    using exec_logged_info [OF assms] by (simp add: atRunOrDie_def)
qed

text \<open>
  The instance: the process of the example leads, is signalled, and the lease is
  released; then \<^verbatim>\<open>OnStoppedLeading\<close> is called.
\<close>

theorem leadership_loss_exits_with_status_zero_witness:
  "map_option (\<lambda>s. (phase s, exited s, logged s))
       (exec exampleProcess [LeaseAcquired, Signal, LeaseReleased] atRunOrDie)
     = Some (Lost, None, [(InfoLevel, [''Received termination, signaling shutdown''])])
   \<and> map_option (\<lambda>s. (exited s, logged s))
        (exec exampleProcess [LeaseAcquired, Signal, LeaseReleased, StoppedLeading] atRunOrDie)
     = Some (Some 0,
         [(InfoLevel, [''Received termination, signaling shutdown'']),
          (InfoLevel, [''leader lost:'', ''6ba7b810-9dad-41d1-80b4-00c04fd430c8''])])"
proof -
  define s1 where
    "s1 = \<lparr>ctxCancelled = True, phase = Lost, tasks = [Task '''' False],
           logged = [(InfoLevel, [''Received termination, signaling shutdown''])],
           exited = None\<rparr>"
  have e1: "exec exampleProcess [LeaseAcquired, Signal, LeaseReleased] atRunOrDie = Some s1"
    by (simp add: s1_def atRunOrDie_def exampleProcess_def OnStartedLeading_def run_def
        runWatchNamespaceTask_def)
  have e2: "exec exampleProcess [LeaseAcquired, Signal, LeaseReleased, StoppedLeading] atRunOrDie
      = step exampleProcess StoppedLeading s1"
    by (simp add: s1_def atRunOrDie_def exampleProcess_def OnStartedLeading_def run_def
        runWatchNamespaceTask_def OnStoppedLeading_def)
  have l: "p_leaseID exampleProcess = ''6ba7b810-9dad-41d1-80b4-00c04fd430c8''"
    by (simp add: exampleProcess_def)
  have c: "phase s1 = Lost \<and> exited s1 = None"
    and lg: "logged s1 = [(InfoLevel, [''Received termination, signaling shutdown''])]"
    by (simp_all add: s1_def)
  have t: "map_option (\<lambda>s'. (exited s', logged s')) (step exampleProcess StoppedLeading s1)
      = Some (Some 0, logged s1 @ [(InfoLevel, [''leader lost:'', p_leaseID exampleProcess])])"
    using leadership_loss_exits_with_status_zero [OF e1] c by blast
  show ?thesis
    unfolding e1 e2
    using t c lg l
    by (simp only: option.map prod.inject option.inject simp_thms append.simps)
qed

subsection \<open>The lease and the dispatcher tasks\<close>

text \<open>
  C1 does not hold of main.go. The process of the example (no flag given, all
  namespaces watched) acquires the lease and starts its task; the signal goroutine
  cancels the context (line 207); the library, its context cancelled and
  \<^verbatim>\<open>ReleaseOnCancel\<close> set, releases the lease. In the state reached the lease is given up
  and the task has not yet left line 278: its channel is open and the watch of the
  namespace runs. Nothing in main.go orders the close of the channel (line 279), let
  alone the end of the watch, before the release: \<^verbatim>\<open>run\<close> returns as soon as the
  goroutines are started, and \<^verbatim>\<open>OnStoppedLeading\<close> exits without waiting. The same
  holds after a failed renewal, where the context of the task is not even cancelled
  when the lease is given up.
\<close>

theorem lease_released_while_task_running:
  "main exampleWorld noFlags = RunOrDie exampleProcess
   \<and> map_option (\<lambda>s. (ctxCancelled s, phase s, tasks s, exited s))
        (exec exampleProcess [LeaseAcquired, Signal, LeaseReleased] atRunOrDie)
     = Some (True, Lost, [Task '''' False], None)
   \<and> map_option (\<lambda>s. (ctxCancelled s, phase s, tasks s, exited s))
        (exec exampleProcess [LeaseAcquired, RenewFailed] atRunOrDie)
     = Some (False, Lost, [Task '''' False], None)"
  using main_exampleWorld_noFlags
  by (simp add: atRunOrDie_def exampleProcess_def OnStartedLeading_def run_def
      runWatchNamespaceTask_def)

end
